theory Spec2Isabelle
  imports Complex_Main
begin

section \<open>Data model of \<open>src/App.tsx\<close>\<close>

text \<open>
  The component \<open>App\<close> keeps its session in React state cells and drives it from four
  callbacks: the polling interval (\<open>analyzeFrame\<close>), the settlement of a classifier
  call (the part of \<open>analyzeFrame\<close> after its \<open>await\<close>), the countdown interval (the
  updater passed to \<open>setBrushingTime\<close>) and the buttons (\<open>reset\<close>, \<open>startCamera\<close>).
  JavaScript runs each callback to completion. React then commits and renders the state
  the callback set, and runs the \<open>useEffect\<close> bodies after that commit: the committed
  state and the state after the effects are two configurations of the component.
\<close>

datatype AppState = IDLE | APPLYING_TOOTHPASTE | BRUSHING | FINISHED | ERROR

text \<open>
  \<open>DetectionResult\<close> is what \<open>JSON.parse\<close> hands to \<open>handleDetectionResult\<close>. The
  TypeScript interface is erased at run time, so a field may be absent: \<open>None\<close> is a field
  that reads as \<open>undefined\<close>, \<open>Some v\<close> a field of the declared type. A finite double is a
  real number, and no double lies between the real \<open>0.4\<close> and the double nearest to it, so
  comparing reals against \<open>0.4\<close> agrees with the comparison of doubles.
\<close>

record DetectionResult =
  isApplyingToothpaste :: "bool option"
  isBrushInMouth :: "bool option"
  isBrushing :: "bool option"
  confidence :: "real option"
  reasoning :: "string option"

definition ANALYSIS_INTERVAL :: int where
  "ANALYSIS_INTERVAL = 3000"

definition BRUSHING_REQUIRED_TIME :: int where
  "BRUSHING_REQUIRED_TIME = 10"

text \<open>The string literals the component shows: the four status messages (lines 153, 158,
  178 and 37/211) and the camera error (line 64).\<close>

definition MSG_TOOTHPASTE_DETECTED :: string where
  "MSG_TOOTHPASTE_DETECTED = ''Toothpaste detected! Now put the brush in your mouth.''"

definition MSG_BRUSHING_DETECTED :: string where
  "MSG_BRUSHING_DETECTED = ''Brushing detected! Keep going for 10 seconds.''"

definition MSG_FINISHED :: string where
  "MSG_FINISHED = ''Great job! Here is your reward.''"

definition MSG_READY :: string where
  "MSG_READY = ''Ready to start''"

definition MSG_CAMERA_ERROR :: string where
  "MSG_CAMERA_ERROR = ''Could not access camera. Please ensure permissions are granted.''"

text \<open>
  The state cells \<open>appState\<close>, \<open>isAnalyzing\<close>, \<open>brushingTime\<close>, \<open>error\<close> and
  \<open>statusMessage\<close>, the two interval handles (\<open>True\<close> while the interval is set), and the
  classifier calls that have been started and have not settled, each with the \<open>appState\<close>
  its closure captured and wrote into the prompt. The cells \<open>qrContent\<close> and
  \<open>showQrInput\<close> play no part in the state machine and are left out.
\<close>

record app =
  appState :: AppState
  isAnalyzing :: bool
  brushingTime :: int
  error :: "string option"
  statusMessage :: string
  brushingTimerRef :: bool
  intervalRef :: bool
  outstanding :: "AppState list"

text \<open>What \<open>captureFrame\<close> sees: whether the two refs are attached, whether the canvas
  gives a 2D context, and the data URL the canvas would produce.\<close>

record frame_source =
  videoRef :: bool
  canvasRef :: bool
  context2d :: bool
  dataURL :: string

text \<open>How a classifier call settles. \<open>Rejected\<close>: \<open>generateContent\<close> throws (transport
  error). \<open>EmptyText\<close>: \<open>response.text\<close> is empty or undefined, so \<open>'{}'\<close> is parsed.
  \<open>Malformed\<close>: \<open>JSON.parse\<close> throws. \<open>Parsed r\<close>: \<open>JSON.parse\<close> returns an object whose
  fields read as \<open>r\<close>. Responses that parse to something other than an object, or to
  an object with a field of another type than the interface declares, are not modelled.\<close>

datatype outcome = Rejected | EmptyText | Malformed | Parsed DetectionResult

datatype event =
    Tick
  | Poll frame_source
  | Settle nat outcome
  | Reset
  | CameraOk
  | CameraFail

section \<open>JavaScript primitives used by the component\<close>

text \<open>\<open>x < y\<close> with \<open>x\<close> possibly \<open>undefined\<close>: \<open>undefined\<close> converts to \<open>NaN\<close>, and every
  comparison with \<open>NaN\<close> is false.\<close>

definition js_less :: "real option \<Rightarrow> real \<Rightarrow> bool" where
  "js_less x y = (case x of None \<Rightarrow> False | Some v \<Rightarrow> v < y)"

text \<open>Truthiness of a boolean field: \<open>undefined\<close> and \<open>false\<close> are falsy.\<close>

definition truthy :: "bool option \<Rightarrow> bool" where
  "truthy b = (case b of None \<Rightarrow> False | Some v \<Rightarrow> v)"

text \<open>\<open>s.split(c)\<close> for a one-character separator.\<close>

fun split_on :: "char \<Rightarrow> string \<Rightarrow> string list" where
  "split_on c [] = [[]]"
| "split_on c (x # xs) =
     (if x = c then [] # split_on c xs
      else (case split_on c xs of [] \<Rightarrow> [[x]] | w # ws \<Rightarrow> (x # w) # ws))"

text \<open>\<open>a[i]\<close>: \<open>undefined\<close> past the end.\<close>

definition js_index :: "'a list \<Rightarrow> nat \<Rightarrow> 'a option" where
  "js_index xs i = (if i < length xs then Some (xs ! i) else None)"

definition remove_nth :: "nat \<Rightarrow> 'a list \<Rightarrow> 'a list" where
  "remove_nth i xs = take i xs @ drop (Suc i) xs"

section \<open>The callbacks\<close>

text \<open>Lines 82-92. \<open>None\<close> stands for \<open>null\<close> and for \<open>undefined\<close>; both are falsy at the
  only use of the result.\<close>

definition captureFrame :: "frame_source \<Rightarrow> string option" where
  "captureFrame env =
     (if \<not> videoRef env \<or> \<not> canvasRef env then None
      else if \<not> context2d env then None
      else js_index (split_on (CHR '','') (dataURL env)) 1)"

text \<open>Lines 94-100: \<open>analyzeFrame\<close> up to its \<open>await\<close>. The call it starts is recorded
  with the \<open>appState\<close> of its closure.\<close>

definition analyzeFrame :: "frame_source \<Rightarrow> app \<Rightarrow> app" where
  "analyzeFrame env s =
     (if appState s = FINISHED \<or> appState s = ERROR then s
      else (case captureFrame env of
              None \<Rightarrow> s
            | Some base64Image \<Rightarrow>
                if base64Image = [] then s
                else s\<lparr>isAnalyzing := True, outstanding := outstanding s @ [appState s]\<rparr>))"

text \<open>Lines 148-169. The updater given to \<open>setAppState\<close> reads \<open>prev\<close>, the state at the
  time the update is applied.\<close>

definition handleDetectionResult :: "DetectionResult \<Rightarrow> app \<Rightarrow> app" where
  "handleDetectionResult result s =
     (if js_less (confidence result) 0.4 then s
      else if appState s = IDLE \<and> truthy (isApplyingToothpaste result) then
        s\<lparr>appState := APPLYING_TOOTHPASTE,
          statusMessage := MSG_TOOTHPASTE_DETECTED\<rparr>
      else if appState s = APPLYING_TOOTHPASTE \<and> truthy (isBrushInMouth result) then
        s\<lparr>appState := BRUSHING,
          statusMessage := MSG_BRUSHING_DETECTED\<rparr>
      else if appState s = BRUSHING \<and> \<not> truthy (isBrushing result)
                \<and> \<not> truthy (isBrushInMouth result) then s
      else s)"

text \<open>Lines 138-145: \<open>analyzeFrame\<close> after its \<open>await\<close>. An exception skips
  \<open>handleDetectionResult\<close>; \<open>finally\<close> lowers the flag in every case.\<close>

definition empty_object :: DetectionResult where
  "empty_object =
     \<lparr>isApplyingToothpaste = None, isBrushInMouth = None, isBrushing = None,
      confidence = None, reasoning = None\<rparr>"

fun parsed :: "outcome \<Rightarrow> DetectionResult option" where
  "parsed Rejected = None"
| "parsed EmptyText = Some empty_object"
| "parsed Malformed = None"
| "parsed (Parsed r) = Some r"

definition settle :: "nat \<Rightarrow> outcome \<Rightarrow> app \<Rightarrow> app" where
  "settle i out s =
     (case parsed out of
        None \<Rightarrow> s\<lparr>outstanding := remove_nth i (outstanding s)\<rparr>
      | Some result \<Rightarrow>
          handleDetectionResult result (s\<lparr>outstanding := remove_nth i (outstanding s)\<rparr>))
     \<lparr>isAnalyzing := False\<rparr>"

text \<open>Lines 175-183: the updater of the countdown interval.\<close>

definition tick :: "app \<Rightarrow> app" where
  "tick s =
     (if brushingTime s \<ge> BRUSHING_REQUIRED_TIME then
        s\<lparr>appState := FINISHED, statusMessage := MSG_FINISHED,
          brushingTimerRef := False\<rparr>
      else s\<lparr>brushingTime := brushingTime s + 1\<rparr>)"

text \<open>Lines 208-213.\<close>

definition reset :: "app \<Rightarrow> app" where
  "reset s =
     s\<lparr>appState := IDLE, brushingTime := 0, statusMessage := MSG_READY,
       error := None\<rparr>"

text \<open>Lines 51-67: the two ways \<open>startCamera\<close> ends.\<close>

definition startCamera_ok :: "app \<Rightarrow> app" where
  "startCamera_ok s = s\<lparr>appState := IDLE, error := None\<rparr>"

definition startCamera_failed :: "app \<Rightarrow> app" where
  "startCamera_failed s =
     s\<lparr>error := Some MSG_CAMERA_ERROR,
       appState := ERROR\<rparr>"

section \<open>The effects\<close>

text \<open>Lines 172-193, run when \<open>appState\<close> has changed: the cleanup clears the old
  countdown interval, then the body sets a new one or zeroes the elapsed time.\<close>

definition timer_effect :: "app \<Rightarrow> app" where
  "timer_effect s =
     (if appState s = BRUSHING then s\<lparr>brushingTimerRef := True\<rparr>
      else if appState s \<noteq> FINISHED then s\<lparr>brushingTimerRef := False, brushingTime := 0\<rparr>
      else s\<lparr>brushingTimerRef := False\<rparr>)"

text \<open>Lines 196-206: the polling interval is set outside \<open>FINISHED\<close> and \<open>ERROR\<close>.\<close>

definition main_loop_effect :: "app \<Rightarrow> app" where
  "main_loop_effect s =
     (if appState s \<noteq> FINISHED \<and> appState s \<noteq> ERROR then s\<lparr>intervalRef := True\<rparr>
      else s\<lparr>intervalRef := False\<rparr>)"

text \<open>Both effects depend on \<open>appState\<close> only (\<open>analyzeFrame\<close> is memoised on it), so they
  run after a callback exactly when the callback changed \<open>appState\<close>.\<close>

definition effects :: "AppState \<Rightarrow> app \<Rightarrow> app" where
  "effects prev s =
     (if appState s = prev then s else main_loop_effect (timer_effect s))"

section \<open>Steps and runs\<close>

text \<open>\<open>handler e s\<close> is the configuration React commits after the callback \<open>e\<close>, with
  the effects not yet run. An interval callback can fire only while its interval is set,
  a call can settle only while it is outstanding; anything else is \<open>None\<close>.\<close>

fun handler :: "event \<Rightarrow> app \<Rightarrow> app option" where
  "handler Tick s = (if brushingTimerRef s then Some (tick s) else None)"
| "handler (Poll env) s = (if intervalRef s then Some (analyzeFrame env s) else None)"
| "handler (Settle i out) s =
     (if i < length (outstanding s) then Some (settle i out s) else None)"
| "handler Reset s = Some (reset s)"
| "handler CameraOk s = Some (startCamera_ok s)"
| "handler CameraFail s = Some (startCamera_failed s)"

text \<open>\<open>step e s\<close> is the configuration after the effects of that commit have run as
  well. React runs the pending effects before it applies the updates of a later callback,
  so the next callback starts from \<open>step e s\<close>; the committed \<open>handler e s\<close> is
  rendered in between.\<close>

definition step :: "event \<Rightarrow> app \<Rightarrow> app option" where
  "step e s = map_option (effects (appState s)) (handler e s)"

fun run :: "event list \<Rightarrow> app \<Rightarrow> app option" where
  "run [] s = Some s"
| "run (e # es) s = (case step e s of None \<Rightarrow> None | Some s' \<Rightarrow> run es s')"

text \<open>The component after mounting: the initial values of the state cells, with both
  effects run once.\<close>

definition mounted :: app where
  "mounted =
     \<lparr>appState = IDLE, isAnalyzing = False, brushingTime = 0, error = None,
      statusMessage = MSG_READY, brushingTimerRef = False, intervalRef = True,
      outstanding = []\<rparr>"

text \<open>Concrete inputs used below.\<close>

definition camera :: frame_source where
  "camera = \<lparr>videoRef = True, canvasRef = True, context2d = True,
             dataURL = ''data:image/jpeg;base64,AAAA''\<rparr>"

definition paste_seen :: DetectionResult where
  "paste_seen =
     \<lparr>isApplyingToothpaste = Some True, isBrushInMouth = Some False,
      isBrushing = Some False, confidence = Some 0.9, reasoning = Some ''paste''\<rparr>"

definition mouth_seen :: DetectionResult where
  "mouth_seen =
     \<lparr>isApplyingToothpaste = Some False, isBrushInMouth = Some True,
      isBrushing = Some True, confidence = Some 0.8, reasoning = Some ''mouth''\<rparr>"

definition brushing_start :: app where
  "brushing_start =
     \<lparr>appState = BRUSHING, isAnalyzing = False, brushingTime = 0, error = None,
      statusMessage = MSG_BRUSHING_DETECTED,
      brushingTimerRef = True, intervalRef = True, outstanding = []\<rparr>"




definition low_confidence_all_true :: DetectionResult where
  "low_confidence_all_true =
     \<lparr>isApplyingToothpaste = Some True, isBrushInMouth = Some True,
      isBrushing = Some True, confidence = Some 0.39, reasoning = Some ''unsure''\<rparr>"

definition partial_response :: DetectionResult where
  "partial_response =
     \<lparr>isApplyingToothpaste = Some True, isBrushInMouth = None, isBrushing = None,
      confidence = Some 0.9, reasoning = None\<rparr>"

definition no_context :: frame_source where
  "no_context = \<lparr>videoRef = True, canvasRef = True, context2d = False, dataURL = []\<rparr>"

definition busy :: app where
  "busy = mounted\<lparr>isAnalyzing := True, outstanding := [IDLE]\<rparr>"

definition applying :: app where
  "applying = mounted\<lparr>appState := APPLYING_TOOTHPASTE, statusMessage := MSG_TOOTHPASTE_DETECTED\<rparr>"

definition ten_elapsed :: app where
  "ten_elapsed = brushing_start\<lparr>brushingTime := 10\<rparr>"

definition finished :: app where
  "finished =
     \<lparr>appState = FINISHED, isAnalyzing = False, brushingTime = 10, error = None,
      statusMessage = MSG_FINISHED, brushingTimerRef = False, intervalRef = False,
      outstanding = []\<rparr>"

definition late_call :: app where
  "late_call = brushing_start\<lparr>isAnalyzing := True, outstanding := [APPLYING_TOOTHPASTE]\<rparr>"

definition confidence_only :: DetectionResult where
  "confidence_only =
     \<lparr>isApplyingToothpaste = None, isBrushInMouth = None, isBrushing = None,
      confidence = Some 0.9, reasoning = None\<rparr>"

section \<open>Invariant and projection used in the statements\<close>

text \<open>The part of the state the user can observe as the session.\<close>

definition session_view :: "app \<Rightarrow> AppState \<times> int \<times> string \<times> string option" where
  "session_view s = (appState s, brushingTime s, statusMessage s, error s)"


section \<open>Basic facts\<close>

lemma captureFrame_camera: "captureFrame camera = Some ''AAAA''"
  by (simp add: captureFrame_def camera_def js_index_def)

lemma effects_unchanged: "appState t = p \<Longrightarrow> effects p t = t"
  by (simp add: effects_def)

lemma appState_effects: "appState (effects p t) = appState t"
  by (simp add: effects_def timer_effect_def main_loop_effect_def)

lemma error_effects: "error (effects p t) = error t"
  by (simp add: effects_def timer_effect_def main_loop_effect_def)

lemma statusMessage_effects: "statusMessage (effects p t) = statusMessage t"
  by (simp add: effects_def timer_effect_def main_loop_effect_def)

lemma brushingTime_effects:
  "brushingTime (effects p t) =
     (if appState t = p \<or> appState t = BRUSHING \<or> appState t = FINISHED
      then brushingTime t else 0)"
  by (simp add: effects_def timer_effect_def main_loop_effect_def)


lemma session_view_effects:
  "session_view (effects p t) =
     (appState t,
      (if appState t = p \<or> appState t = BRUSHING \<or> appState t = FINISHED
       then brushingTime t else 0),
      statusMessage t, error t)"
  by (simp add: session_view_def appState_effects brushingTime_effects
      statusMessage_effects error_effects)

lemma handle_sticky:
  "appState s = BRUSHING \<or> appState s = FINISHED \<or> appState s = ERROR
   \<Longrightarrow> handleDetectionResult r s = s"
  by (auto simp add: handleDetectionResult_def)

lemma handle_cases:
  "handleDetectionResult r s = s
   \<or> (appState s = IDLE
      \<and> handleDetectionResult r s =
          s\<lparr>appState := APPLYING_TOOTHPASTE, statusMessage := MSG_TOOTHPASTE_DETECTED\<rparr>)
   \<or> (appState s = APPLYING_TOOTHPASTE
      \<and> handleDetectionResult r s =
          s\<lparr>appState := BRUSHING, statusMessage := MSG_BRUSHING_DETECTED\<rparr>)"
  by (simp add: handleDetectionResult_def)

lemma handle_outstanding:
  "handleDetectionResult r (s\<lparr>outstanding := x\<rparr>) =
     (handleDetectionResult r s)\<lparr>outstanding := x\<rparr>"
  by (simp add: handleDetectionResult_def)

lemma settle_thrown:
  "parsed out = None \<Longrightarrow>
   settle i out s = s\<lparr>outstanding := remove_nth i (outstanding s), isAnalyzing := False\<rparr>"
  by (simp add: settle_def)

lemma settle_parsed:
  "parsed out = Some r \<Longrightarrow>
   settle i out s =
     (handleDetectionResult r s)\<lparr>outstanding := remove_nth i (outstanding s),
                                  isAnalyzing := False\<rparr>"
  by (simp add: settle_def handle_outstanding)

lemma settle_cases:
  "settle i out s = s\<lparr>outstanding := remove_nth i (outstanding s), isAnalyzing := False\<rparr>
   \<or> (appState s = IDLE
      \<and> settle i out s =
          s\<lparr>appState := APPLYING_TOOTHPASTE, statusMessage := MSG_TOOTHPASTE_DETECTED,
            outstanding := remove_nth i (outstanding s), isAnalyzing := False\<rparr>)
   \<or> (appState s = APPLYING_TOOTHPASTE
      \<and> settle i out s =
          s\<lparr>appState := BRUSHING, statusMessage := MSG_BRUSHING_DETECTED,
            outstanding := remove_nth i (outstanding s), isAnalyzing := False\<rparr>)"
proof (cases "parsed out")
  case None
  then show ?thesis by (simp add: settle_thrown)
next
  case (Some r)
  show ?thesis using handle_cases [of r s] by (auto simp add: settle_parsed [OF Some])
qed

lemma analyzeFrame_cases:
  "analyzeFrame env s = s
   \<or> analyzeFrame env s = s\<lparr>isAnalyzing := True, outstanding := outstanding s @ [appState s]\<rparr>"
  by (simp add: analyzeFrame_def split: option.splits)

lemma step_Tick:
  "step Tick s =
     (if brushingTimerRef s then Some (effects (appState s) (tick s)) else None)"
  by (simp add: step_def)

lemma step_Poll:
  "step (Poll env) s = (if intervalRef s then Some (analyzeFrame env s) else None)"
  using analyzeFrame_cases [of env s] by (auto simp add: step_def effects_def)

lemma step_Settle:
  "step (Settle i out) s =
     (if i < length (outstanding s) then Some (effects (appState s) (settle i out s)) else None)"
  by (simp add: step_def)








lemma poll_once:
  assumes "appState s \<noteq> FINISHED" and "appState s \<noteq> ERROR" and "intervalRef s"
    and "captureFrame env = Some img" and "img \<noteq> []"
  shows "step (Poll env) s =
           Some (s\<lparr>isAnalyzing := True, outstanding := outstanding s @ [appState s]\<rparr>)"
  using assms by (simp add: step_Poll analyzeFrame_def)



lemma step_eleventh_tick: "step Tick ten_elapsed = Some finished"
  by (simp add: step_Tick tick_def effects_def timer_effect_def main_loop_effect_def
      brushing_start_def ten_elapsed_def finished_def BRUSHING_REQUIRED_TIME_def)







section \<open>The countdown\<close>

text \<open>
  C1. Starting in \<open>BRUSHING\<close> with no elapsed time, ten ticks of the countdown are said
  to bring the elapsed time to ten and to move the state to \<open>FINISHED\<close> on the tenth
  tick. The updater tests \<open>prev >= BRUSHING_REQUIRED_TIME\<close> before it increments, so the
  tenth tick only raises the elapsed time from nine to ten: after ten ticks the state is
  still \<open>BRUSHING\<close> and the interval is still set. The eleventh tick sets \<open>FINISHED\<close>
  and the completion message and clears the interval.
\<close>

theorem ten_ticks_leave_brushing:
  "run (replicate 10 Tick) brushing_start = Some (brushing_start\<lparr>brushingTime := 10\<rparr>)
   \<and> appState (brushing_start\<lparr>brushingTime := 10\<rparr>) = BRUSHING
   \<and> brushingTimerRef (brushing_start\<lparr>brushingTime := 10\<rparr>) = True
   \<and> run (replicate 11 Tick) brushing_start =
       Some (brushing_start\<lparr>appState := FINISHED, brushingTime := 10,
              statusMessage := MSG_FINISHED, brushingTimerRef := False, intervalRef := False\<rparr>)"
  by (simp add: numeral_eq_Suc step_Tick tick_def effects_def timer_effect_def
      main_loop_effect_def brushing_start_def BRUSHING_REQUIRED_TIME_def)

section \<open>The polling loop\<close>

text \<open>
  C2. The claim is that no two classifier calls are outstanding at once, the analyzing
  flag gating the dispatch. \<open>analyzeFrame\<close> raises \<open>isAnalyzing\<close> and never reads it:
  a polling tick starts a call whenever the state is neither \<open>FINISHED\<close> nor \<open>ERROR\<close>
  and a non-empty frame was captured, whatever the flag says and however many calls are
  outstanding. So \<open>n\<close> polling ticks with no settlement between them leave \<open>n\<close> more calls
  outstanding, each carrying the state it was started under.
\<close>

theorem polling_not_gated:
  assumes "appState s \<noteq> FINISHED" and "appState s \<noteq> ERROR" and "intervalRef s"
    and "captureFrame env = Some img" and "img \<noteq> []"
  shows "run (replicate n (Poll env)) s =
           Some (s\<lparr>isAnalyzing := (isAnalyzing s \<or> 0 < n),
                   outstanding := outstanding s @ replicate n (appState s)\<rparr>)"
  using assms
proof (induction n arbitrary: s)
  case 0
  then show ?case by simp
next
  case (Suc n)
  let ?t = "s\<lparr>isAnalyzing := True, outstanding := outstanding s @ [appState s]\<rparr>"
  have st: "step (Poll env) s = Some ?t" using Suc.prems by (rule poll_once)
  have "run (replicate n (Poll env)) ?t =
          Some (?t\<lparr>isAnalyzing := (isAnalyzing ?t \<or> 0 < n),
                   outstanding := outstanding ?t @ replicate n (appState ?t)\<rparr>)"
    using Suc.prems by (intro Suc.IH) simp_all
  then show ?case using st by (simp add: replicate_app_Cons_same)
qed

theorem polling_not_gated_witness:
  "appState busy \<noteq> FINISHED \<and> appState busy \<noteq> ERROR \<and> intervalRef busy
   \<and> isAnalyzing busy \<and> outstanding busy = [IDLE]
   \<and> captureFrame camera = Some ''AAAA''
   \<and> run (replicate 2 (Poll camera)) busy = Some (busy\<lparr>outstanding := [IDLE, IDLE, IDLE]\<rparr>)"
proof -
  have a: "appState busy \<noteq> FINISHED" and b: "appState busy \<noteq> ERROR" and c: "intervalRef busy"
    by (simp_all add: busy_def mounted_def)
  have d: "''AAAA'' \<noteq> []" by simp
  show ?thesis
    using polling_not_gated [OF a b c captureFrame_camera d, of 2] a b c captureFrame_camera
    by (simp add: busy_def mounted_def numeral_eq_Suc)
qed

theorem two_calls_outstanding:
  "run [Poll camera, Poll camera] mounted =
     Some (mounted\<lparr>isAnalyzing := True, outstanding := [IDLE, IDLE]\<rparr>)"
  by (simp add: step_Poll analyzeFrame_def captureFrame_camera mounted_def)

text \<open>
  C10. When the frame source gives no image, because the video or the canvas element is
  missing or the canvas has no 2D context, an analysis tick returns at once: no call is
  started, the analyzing flag is not raised and nothing of the session changes.
\<close>

theorem no_frame_no_dispatch:
  assumes "\<not> videoRef env \<or> \<not> canvasRef env \<or> \<not> context2d env"
  shows "captureFrame env = None \<and> analyzeFrame env s = s
       \<and> (intervalRef s \<longrightarrow> step (Poll env) s = Some s)"
proof -
  have "captureFrame env = None" using assms by (auto simp add: captureFrame_def)
  then show ?thesis by (simp add: analyzeFrame_def step_Poll)
qed

theorem no_frame_no_dispatch_witness:
  "\<not> context2d no_context \<and> captureFrame no_context = None
   \<and> analyzeFrame no_context mounted = mounted
   \<and> intervalRef mounted \<and> step (Poll no_context) mounted = Some mounted"
proof -
  have a: "\<not> videoRef no_context \<or> \<not> canvasRef no_context \<or> \<not> context2d no_context"
    by (simp add: no_context_def)
  have b: "intervalRef mounted" by (simp add: mounted_def)
  show ?thesis using no_frame_no_dispatch [OF a, of mounted] b
    by (simp add: no_context_def)
qed

section \<open>Handling a detection result\<close>

text \<open>
  C4. A detection result whose confidence is below 0.4 is discarded: whatever its three
  boolean fields and whatever the current state, handling it changes neither the state
  nor the status message.
\<close>

theorem low_confidence_discarded:
  assumes "confidence r = Some c" and "c < 0.4"
  shows "handleDetectionResult r s = s"
  using assms by (simp add: handleDetectionResult_def js_less_def)

theorem low_confidence_discarded_witness:
  "confidence low_confidence_all_true = Some 0.39 \<and> (0.39 :: real) < 0.4
   \<and> isApplyingToothpaste low_confidence_all_true = Some True \<and> appState mounted = IDLE
   \<and> handleDetectionResult low_confidence_all_true mounted = mounted"
proof -
  have a: "confidence low_confidence_all_true = Some 0.39"
    by (simp add: low_confidence_all_true_def)
  have b: "(0.39 :: real) < 0.4" by simp
  show ?thesis using low_confidence_discarded [OF a b, of mounted] b
    by (simp add: low_confidence_all_true_def mounted_def)
qed

text \<open>
  C5. With a confidence of at least 0.4: in \<open>IDLE\<close> the state changes exactly when
  \<open>isApplyingToothpaste\<close> is true, and then to \<open>APPLYING_TOOTHPASTE\<close> with the
  toothpaste message; in \<open>APPLYING_TOOTHPASTE\<close> it changes exactly when \<open>isBrushInMouth\<close>
  is true, and then to \<open>BRUSHING\<close> with the brushing message. In particular
  \<open>isApplyingToothpaste\<close> alone changes nothing in \<open>APPLYING_TOOTHPASTE\<close>.
\<close>

theorem confident_result_transitions:
  assumes "confidence r = Some c" and "0.4 \<le> c"
  shows "(appState s = IDLE \<longrightarrow>
            handleDetectionResult r s =
              (if isApplyingToothpaste r = Some True
               then s\<lparr>appState := APPLYING_TOOTHPASTE,
                      statusMessage := MSG_TOOTHPASTE_DETECTED\<rparr>
               else s))
       \<and> (appState s = APPLYING_TOOTHPASTE \<longrightarrow>
            handleDetectionResult r s =
              (if isBrushInMouth r = Some True
               then s\<lparr>appState := BRUSHING, statusMessage := MSG_BRUSHING_DETECTED\<rparr>
               else s))"
  using assms
  by (auto simp add: handleDetectionResult_def js_less_def truthy_def split: option.splits)

theorem confident_result_transitions_witness:
  "confidence paste_seen = Some 0.9 \<and> (0.4 :: real) \<le> 0.9
   \<and> confidence mouth_seen = Some 0.8 \<and> (0.4 :: real) \<le> 0.8
   \<and> appState mounted = IDLE \<and> appState applying = APPLYING_TOOTHPASTE
   \<and> handleDetectionResult paste_seen mounted = applying
   \<and> handleDetectionResult mouth_seen mounted = mounted
   \<and> handleDetectionResult paste_seen applying = applying
   \<and> handleDetectionResult mouth_seen applying =
       applying\<lparr>appState := BRUSHING, statusMessage := MSG_BRUSHING_DETECTED\<rparr>"
proof -
  have a: "confidence paste_seen = Some 0.9" by (simp add: paste_seen_def)
  have b: "(0.4 :: real) \<le> 0.9" by simp
  have c: "confidence mouth_seen = Some 0.8" by (simp add: mouth_seen_def)
  have d: "(0.4 :: real) \<le> 0.8" by simp
  have e: "appState mounted = IDLE" by (simp add: mounted_def)
  have f: "appState applying = APPLYING_TOOTHPASTE" by (simp add: applying_def)
  show ?thesis
    using confident_result_transitions [OF a b, of mounted]
      confident_result_transitions [OF c d, of mounted]
      confident_result_transitions [OF a b, of applying]
      confident_result_transitions [OF c d, of applying] b d e f
    by (simp add: paste_seen_def mouth_seen_def applying_def)
qed

text \<open>
  C6. In \<open>BRUSHING\<close> no detection result, whatever its fields and its confidence, changes
  anything; and a step leaves \<open>BRUSHING\<close> only as a countdown tick that finds the
  required time elapsed, which goes to \<open>FINISHED\<close>, or as one of the outside events
  (reset, camera acquired again, camera failure).
\<close>

theorem brushing_left_only_by_countdown:
  assumes "appState s = BRUSHING"
  shows "handleDetectionResult r s = s
       \<and> (step e s = Some s' \<longrightarrow> appState s' \<noteq> BRUSHING \<longrightarrow>
            (e = Tick \<and> BRUSHING_REQUIRED_TIME \<le> brushingTime s \<and> appState s' = FINISHED)
            \<or> e = Reset \<or> e = CameraOk \<or> e = CameraFail)"
proof -
  have h: "handleDetectionResult r s = s" using assms by (simp add: handle_sticky)
  have "appState s' = BRUSHING \<or> (BRUSHING_REQUIRED_TIME \<le> brushingTime s \<and> appState s' = FINISHED)"
    if "step Tick s = Some s'"
    using that assms by (auto simp add: step_Tick tick_def appState_effects split: if_splits)
  moreover have "appState s' = BRUSHING" if "step (Poll env) s = Some s'" for env
    using that assms analyzeFrame_cases [of env s] by (auto simp add: step_Poll split: if_splits)
  moreover have "appState s' = BRUSHING" if "step (Settle i out) s = Some s'" for i out
    using that assms settle_cases [of i out s]
    by (auto simp add: step_Settle appState_effects split: if_splits)
  ultimately show ?thesis using h by (cases e) auto
qed

theorem brushing_left_only_by_countdown_witness:
  "appState ten_elapsed = BRUSHING
   \<and> handleDetectionResult paste_seen ten_elapsed = ten_elapsed
   \<and> step Tick ten_elapsed = Some finished \<and> appState finished \<noteq> BRUSHING
   \<and> BRUSHING_REQUIRED_TIME \<le> brushingTime ten_elapsed \<and> appState finished = FINISHED"
proof -
  have a: "appState ten_elapsed = BRUSHING" by (simp add: ten_elapsed_def brushing_start_def)
  have b: "appState finished \<noteq> BRUSHING" by (simp add: finished_def)
  show ?thesis
    using brushing_left_only_by_countdown [OF a, of paste_seen Tick finished]
      a b step_eleventh_tick
    by simp
qed

section \<open>The elapsed time\<close>




section \<open>Reset\<close>

text \<open>
  C8. \<open>reset\<close>, from any state, \<open>FINISHED\<close> and \<open>ERROR\<close> included, gives state \<open>IDLE\<close>,
  elapsed time 0 and no error; the effects that run after it keep all three.
\<close>

theorem reset_returns_to_idle:
  "appState (reset s) = IDLE \<and> brushingTime (reset s) = 0 \<and> error (reset s) = None
   \<and> map_option appState (step Reset s) = Some IDLE
   \<and> map_option brushingTime (step Reset s) = Some 0
   \<and> map_option error (step Reset s) = Some None"
  by (simp add: step_def reset_def appState_effects brushingTime_effects error_effects)

theorem reset_returns_to_idle_witness:
  "appState (reset finished) = IDLE \<and> brushingTime (reset finished) = 0
   \<and> error (reset finished) = None
   \<and> step Reset finished = Some mounted"
  using reset_returns_to_idle [of finished]
  by (simp add: step_def reset_def effects_def timer_effect_def main_loop_effect_def
      finished_def mounted_def)

section \<open>Settlement of a classifier call\<close>

text \<open>
  C3. The claim is that a result which settles after the session has left the state its
  request was made under is never applied. The component keeps no record of that state
  for the handler: the updater in \<open>handleDetectionResult\<close> reads the state at settlement.
  What holds is this. A result that settles while the session is in \<open>BRUSHING\<close>,
  \<open>FINISHED\<close> or \<open>ERROR\<close> changes neither the state nor the status message, whatever
  state it was requested under (so a result requested under \<open>APPLYING_TOOTHPASTE\<close> that
  arrives in \<open>BRUSHING\<close> triggers nothing); and in every state the session after a
  settlement does not depend on the states the outstanding calls were requested under.
\<close>

theorem settle_uses_state_at_settlement:
  assumes "i < length (outstanding s)"
  shows "(appState s = BRUSHING \<or> appState s = FINISHED \<or> appState s = ERROR \<longrightarrow>
            step (Settle i out) s =
              Some (s\<lparr>outstanding := remove_nth i (outstanding s), isAnalyzing := False\<rparr>))
       \<and> (length ctx = length (outstanding s) \<longrightarrow>
            map_option session_view (step (Settle i out) (s\<lparr>outstanding := ctx\<rparr>)) =
            map_option session_view (step (Settle i out) s))"
proof (cases "parsed out")
  case None
  show ?thesis using assms
    by (simp add: step_Settle settle_thrown [OF None] effects_unchanged session_view_def)
next
  case (Some r)
  have "handleDetectionResult r s = s"
    if "appState s = BRUSHING \<or> appState s = FINISHED \<or> appState s = ERROR"
    using that by (rule handle_sticky)
  then show ?thesis using assms
    by (auto simp add: step_Settle settle_parsed [OF Some] effects_unchanged
        session_view_effects handle_outstanding)
qed

theorem settle_uses_state_at_settlement_witness:
  "0 < length (outstanding late_call) \<and> outstanding late_call = [APPLYING_TOOTHPASTE]
   \<and> appState late_call = BRUSHING
   \<and> step (Settle 0 (Parsed mouth_seen)) late_call = Some brushing_start
   \<and> length [IDLE] = length (outstanding late_call)
   \<and> map_option session_view
        (step (Settle 0 (Parsed mouth_seen)) (late_call\<lparr>outstanding := [IDLE]\<rparr>)) =
      map_option session_view (step (Settle 0 (Parsed mouth_seen)) late_call)"
proof -
  have a: "0 < length (outstanding late_call)" by (simp add: late_call_def)
  have b: "appState late_call = BRUSHING" by (simp add: late_call_def brushing_start_def)
  have c: "length [IDLE] = length (outstanding late_call)" by (simp add: late_call_def)
  show ?thesis
    using settle_uses_state_at_settlement [OF a, of "Parsed mouth_seen" "[IDLE]"] a b c
    by (simp add: late_call_def brushing_start_def remove_nth_def)
qed

theorem stale_result_applied:
  "run [Poll camera, Poll camera, Settle 0 (Parsed paste_seen)] mounted =
     Some (applying\<lparr>outstanding := [IDLE]\<rparr>)
   \<and> step (Settle 0 (Parsed mouth_seen)) (applying\<lparr>outstanding := [IDLE]\<rparr>) =
       Some brushing_start"
  by (simp add: step_Poll step_Settle analyzeFrame_def captureFrame_camera settle_def
      handleDetectionResult_def js_less_def truthy_def remove_nth_def effects_def
      timer_effect_def main_loop_effect_def mounted_def applying_def paste_seen_def
      mouth_seen_def brushing_start_def)

text \<open>
  C9. The claim is that every fault of the classifier, a response with missing fields
  included, is a classification failure that changes nothing. What holds is this. A
  transport error, a response that does not parse, an empty response text (parsed as
  \<open>{}\<close>) and a parsed response without the two boolean fields that drive transitions only
  take the call off the outstanding list and lower the analyzing flag. No settlement of
  any kind sets the error message or moves the state into or out of \<open>ERROR\<close>. A response
  that parses is handed to \<open>handleDetectionResult\<close> with its absent fields read as
  \<open>undefined\<close>, whichever fields are absent.
\<close>

theorem classifier_faults_absorbed:
  assumes "i < length (outstanding s)"
  shows "(out = Rejected \<or> out = Malformed \<or> out = EmptyText
            \<or> out = Parsed r \<and> isApplyingToothpaste r = None \<and> isBrushInMouth r = None \<longrightarrow>
            step (Settle i out) s =
              Some (s\<lparr>outstanding := remove_nth i (outstanding s), isAnalyzing := False\<rparr>))
       \<and> (step (Settle i out) s = Some s' \<longrightarrow>
            error s' = error s \<and> (appState s' = ERROR) = (appState s = ERROR))"
proof -
  have quiet: "handleDetectionResult q s = s"
    if "isApplyingToothpaste q = None" and "isBrushInMouth q = None" for q
    using that by (simp add: handleDetectionResult_def truthy_def)
  have thrown: "step (Settle i out) s =
      Some (s\<lparr>outstanding := remove_nth i (outstanding s), isAnalyzing := False\<rparr>)"
    if "parsed out = None"
    using assms by (simp add: step_Settle settle_thrown [OF that] effects_unchanged)
  have silent: "step (Settle i out) s =
      Some (s\<lparr>outstanding := remove_nth i (outstanding s), isAnalyzing := False\<rparr>)"
    if "parsed out = Some q" and "isApplyingToothpaste q = None" and "isBrushInMouth q = None"
    for q
    using assms quiet [OF that(2,3)]
    by (simp add: step_Settle settle_parsed [OF that(1)] effects_unchanged)
  have first: "step (Settle i out) s =
      Some (s\<lparr>outstanding := remove_nth i (outstanding s), isAnalyzing := False\<rparr>)"
    if "out = Rejected \<or> out = Malformed \<or> out = EmptyText
        \<or> out = Parsed r \<and> isApplyingToothpaste r = None \<and> isBrushInMouth r = None"
    using that
  proof (elim disjE conjE)
    assume "out = Rejected" then show ?thesis using thrown by simp
  next
    assume "out = Malformed" then show ?thesis using thrown by simp
  next
    assume "out = EmptyText" then show ?thesis
      using silent [of empty_object] by (simp add: empty_object_def)
  next
    assume "out = Parsed r" and "isApplyingToothpaste r = None" and "isBrushInMouth r = None"
    then show ?thesis using silent [of r] by simp
  qed
  have second: "error s' = error s \<and> (appState s' = ERROR) = (appState s = ERROR)"
    if "step (Settle i out) s = Some s'"
    using that assms settle_cases [of i out s]
    by (auto simp add: step_Settle error_effects appState_effects)
  show ?thesis using first second by blast
qed

theorem classifier_faults_absorbed_witness:
  "0 < length (outstanding busy)
   \<and> step (Settle 0 Rejected) busy = Some mounted
   \<and> step (Settle 0 Malformed) busy = Some mounted
   \<and> step (Settle 0 EmptyText) busy = Some mounted
   \<and> isApplyingToothpaste confidence_only = None \<and> isBrushInMouth confidence_only = None
   \<and> step (Settle 0 (Parsed confidence_only)) busy = Some mounted
   \<and> error mounted = error busy \<and> (appState mounted = ERROR) = (appState busy = ERROR)"
proof -
  have a: "0 < length (outstanding busy)" by (simp add: busy_def)
  have b: "isApplyingToothpaste confidence_only = None \<and> isBrushInMouth confidence_only = None"
    by (simp add: confidence_only_def)
  have c: "busy\<lparr>outstanding := remove_nth 0 (outstanding busy), isAnalyzing := False\<rparr> = mounted"
    by (simp add: busy_def mounted_def remove_nth_def)
  show ?thesis
    using classifier_faults_absorbed [OF a, of Rejected confidence_only mounted]
      classifier_faults_absorbed [OF a, of Malformed confidence_only mounted]
      classifier_faults_absorbed [OF a, of EmptyText confidence_only mounted]
      classifier_faults_absorbed [OF a, of "Parsed confidence_only" confidence_only mounted]
      a b c
    by simp
qed

theorem partial_response_detected:
  "isBrushInMouth partial_response = None \<and> isBrushing partial_response = None
   \<and> reasoning partial_response = None
   \<and> run [Poll camera, Settle 0 (Parsed partial_response)] mounted = Some applying"
  by (simp add: step_Poll step_Settle analyzeFrame_def captureFrame_camera settle_def
      handleDetectionResult_def js_less_def truthy_def remove_nth_def effects_def
      timer_effect_def main_loop_effect_def mounted_def applying_def partial_response_def)

end
